theory Spec2Isabelle
  imports Complex_Main "HOL-Library.Sublist" "HOL-Library.AList"
begin

section \<open>Values shared by the two service workers\<close>

text \<open>
  The two workers, \<^verbatim>\<open>assets/optimized/service-worker-optimized.js\<close> and
  \<^verbatim>\<open>assets/ravan-fashion-service-worker.js\<close>, run on the browser's Cache and Fetch
  interfaces. A promise is modelled by its outcome: it rejects with an error or resolves
  with a value. A value that may be \<^verbatim>\<open>undefined\<close> is an \<open>option\<close>.
\<close>

datatype error = NetworkError | TypeError | InvalidStateError

datatype 'a result = Rejects error | Resolves 'a

text \<open>
  \<^verbatim>\<open>new Date(header)\<close> holds either a time value in milliseconds or NaN. Every
  comparison with NaN is false.
\<close>

datatype jsdate = InvalidDate | Ms int

record response =
  status :: nat
  statusText :: string
  url :: string
  hdr_date :: "jsdate option"
  content_type :: "string option"
  body :: string

text \<open>
  A request carries its URL together with what \<^verbatim>\<open>new URL(request.url)\<close> reads from it
  (host name, path, and whether the query has a \<^verbatim>\<open>width\<close> or \<^verbatim>\<open>height\<close> parameter),
  its method, its mode and its \<^verbatim>\<open>accept\<close> header. The requests modelled are
  \<^verbatim>\<open>http\<close> and \<^verbatim>\<open>https\<close> requests.
\<close>

record request =
  r_url :: string
  r_method :: string
  hostname :: string
  pathname :: string
  has_width :: bool
  has_height :: bool
  mode :: string
  accept :: "string option"

definition ok :: "response \<Rightarrow> bool" where
  "ok r = (200 \<le> status r \<and> status r \<le> 299)"

subsection \<open>String methods\<close>

fun str_includes :: "string \<Rightarrow> string \<Rightarrow> bool" where
  "str_includes [] t = (t = [])"
| "str_includes (c # cs) t = (prefix t (c # cs) \<or> str_includes cs t)"

definition startsWith :: "string \<Rightarrow> string \<Rightarrow> bool" where
  "startsWith s t = prefix t s"

definition endsWith :: "string \<Rightarrow> string \<Rightarrow> bool" where
  "endsWith s t = suffix t s"

definition lower_char :: "char \<Rightarrow> char" where
  "lower_char c =
     (let n = (of_char c :: nat) in if 65 \<le> n \<and> n \<le> 90 then char_of (n + 32) else c)"

definition toLowerCase :: "string \<Rightarrow> string" where
  "toLowerCase s = map lower_char s"

subsection \<open>Cache storage\<close>

text \<open>
  A cache is a list of entries keyed by request URL; the cache storage is a list of
  named caches in creation order, which is the order \<^verbatim>\<open>caches.keys()\<close> reports.
  URL strings stand for resolved URLs: the key written for \<^verbatim>\<open>'/offline.html'\<close> is the
  key read for it. A URL string given where a request is expected stands for a \<^verbatim>\<open>GET\<close>
  request. A request with another method matches no entry, and putting it is rejected
  with a \<^verbatim>\<open>TypeError\<close> (\<open>request_match\<close>, \<open>request_put\<close>); apart from that the
  calls on the storage succeed.
\<close>

type_synonym cache = "(string \<times> response) list"

type_synonym cache_storage = "(string \<times> cache) list"

text \<open>\<^verbatim>\<open>caches.open(name)\<close> creates the cache when it does not exist yet.\<close>

definition caches_open :: "string \<Rightarrow> cache_storage \<Rightarrow> cache_storage" where
  "caches_open n cs = (if map_of cs n = None then cs @ [(n, [])] else cs)"

definition caches_keys :: "cache_storage \<Rightarrow> string list" where
  "caches_keys cs = map fst cs"

definition caches_delete :: "string \<Rightarrow> cache_storage \<Rightarrow> cache_storage" where
  "caches_delete n cs = AList.delete n cs"

text \<open>\<^verbatim>\<open>cache.match(url)\<close> on the cache called \<open>n\<close>, for a URL string.\<close>

definition cache_match :: "string \<Rightarrow> string \<Rightarrow> cache_storage \<Rightarrow> response option" where
  "cache_match n k cs = (case map_of cs n of None \<Rightarrow> None | Some c \<Rightarrow> map_of c k)"

text \<open>
  The entry that \<^verbatim>\<open>cache.put\<close> writes into the cache called \<open>n\<close>: the entry for
  the key is written or overwritten. The workers put only into a cache they have opened.
\<close>

definition cache_put :: "string \<Rightarrow> string \<Rightarrow> response \<Rightarrow> cache_storage \<Rightarrow> cache_storage" where
  "cache_put n k r cs = AList.map_default n [(k, r)] (AList.update k r) cs"

text \<open>\<^verbatim>\<open>cache.match(request)\<close> on the cache called \<open>n\<close>.\<close>

definition request_match :: "string \<Rightarrow> request \<Rightarrow> cache_storage \<Rightarrow> response option" where
  "request_match n req cs =
     (if r_method req = ''GET'' then cache_match n (r_url req) cs else None)"



subsection \<open>The environment and the worker's state\<close>

text \<open>
  The network answers a fetch of a URL by rejecting or by resolving with a response, the
  same way each time it is asked; \<open>now\<close> is the clock read by \<^verbatim>\<open>new Date()\<close>, in
  milliseconds.
\<close>

record env =
  net :: "string \<Rightarrow> response result"
  now :: int

text \<open>
  A background task is work a handler starts without awaiting it. Its fetch is issued
  at once; what follows the fetch runs after the handler has answered.
\<close>

datatype task =
  UpdateCache request string
| FetchPromise request string
| BackgroundRevalidate request string

datatype log_entry = Log string | Warn string

datatype reply = CACHE_STATS "(string \<times> nat \<times> nat) list"

record sw_state =
  caches :: cache_storage
  fetch_log :: "string list"
  pending :: "task list"
  console :: "log_entry list"
  skipWaiting_calls :: nat
  posted :: "reply list"

text \<open>
  Calling \<^verbatim>\<open>fetch\<close> issues the request at once (\<open>start_fetch\<close>); awaiting it gives
  the network's answer (\<open>net_fetch\<close>). \<open>spawn\<close> records what is left of a call that
  is not awaited.
\<close>

definition start_fetch :: "string \<Rightarrow> sw_state \<Rightarrow> sw_state" where
  "start_fetch u st = st\<lparr>fetch_log := fetch_log st @ [u]\<rparr>"

definition net_fetch :: "env \<Rightarrow> string \<Rightarrow> sw_state \<Rightarrow> response result \<times> sw_state" where
  "net_fetch e u st = (net e u, start_fetch u st)"

definition spawn :: "task \<Rightarrow> sw_state \<Rightarrow> sw_state" where
  "spawn t st = st\<lparr>pending := pending st @ [t]\<rparr>"

definition console_warn :: "string \<Rightarrow> sw_state \<Rightarrow> sw_state" where
  "console_warn m st = st\<lparr>console := console st @ [Warn m]\<rparr>"

definition console_log :: "string \<Rightarrow> sw_state \<Rightarrow> sw_state" where
  "console_log m st = st\<lparr>console := console st @ [Log m]\<rparr>"

definition open_cache :: "string \<Rightarrow> sw_state \<Rightarrow> sw_state" where
  "open_cache n st = st\<lparr>caches := caches_open n (caches st)\<rparr>"

text \<open>\<^verbatim>\<open>cache.put(url, response)\<close> on the cache called \<open>n\<close>, for a URL string.\<close>

definition put_cache :: "string \<Rightarrow> string \<Rightarrow> response \<Rightarrow> sw_state \<Rightarrow> sw_state" where
  "put_cache n k r st = st\<lparr>caches := cache_put n k r (caches st)\<rparr>"

text \<open>\<^verbatim>\<open>cache.put(request, response)\<close> on the cache called \<open>n\<close>.\<close>

definition request_put ::
  "string \<Rightarrow> request \<Rightarrow> response \<Rightarrow> sw_state \<Rightarrow> unit result \<times> sw_state" where
  "request_put n req r st =
     (if r_method req = ''GET'' then (Resolves (), put_cache n (r_url req) r st)
      else (Rejects TypeError, st))"

section \<open>The optimized worker\<close>

datatype cache_key = STATIC | IMAGES | PAGES | API | RUNTIME

fun RAVAN_FASHION_CACHE :: "cache_key \<Rightarrow> string" where
  "RAVAN_FASHION_CACHE STATIC = ''ravan-fashion-static-v1''"
| "RAVAN_FASHION_CACHE IMAGES = ''ravan-fashion-images-v1''"
| "RAVAN_FASHION_CACHE PAGES = ''ravan-fashion-pages-v1''"
| "RAVAN_FASHION_CACHE API = ''ravan-fashion-api-v1''"
| "RAVAN_FASHION_CACHE RUNTIME = ''ravan-fashion-runtime-v1''"

fun CACHE_EXPIRY :: "cache_key \<Rightarrow> int" where
  "CACHE_EXPIRY STATIC = 7 * 24 * 60 * 60 * 1000"
| "CACHE_EXPIRY IMAGES = 30 * 24 * 60 * 60 * 1000"
| "CACHE_EXPIRY PAGES = 24 * 60 * 60 * 1000"
| "CACHE_EXPIRY API = 60 * 60 * 1000"
| "CACHE_EXPIRY RUNTIME = 60 * 60 * 1000"

text \<open>
  \<^verbatim>\<open>isCacheExpired(response)\<close>: no \<^verbatim>\<open>date\<close> header, not expired; otherwise the age
  is compared with the duration chosen by the words found in \<^verbatim>\<open>response.url\<close>.
\<close>

definition age_exceeds :: "env \<Rightarrow> jsdate \<Rightarrow> int \<Rightarrow> bool" where
  "age_exceeds e d limit = (case d of InvalidDate \<Rightarrow> False | Ms t \<Rightarrow> now e - t > limit)"

definition isCacheExpired :: "env \<Rightarrow> response \<Rightarrow> bool" where
  "isCacheExpired e r =
     (case hdr_date r of
        None \<Rightarrow> False
      | Some d \<Rightarrow>
          if str_includes (url r) ''static'' then age_exceeds e d (CACHE_EXPIRY STATIC)
          else if str_includes (url r) ''images'' then age_exceeds e d (CACHE_EXPIRY IMAGES)
          else if str_includes (url r) ''pages'' then age_exceeds e d (CACHE_EXPIRY PAGES)
          else if str_includes (url r) ''api'' then age_exceeds e d (CACHE_EXPIRY API)
          else age_exceeds e d (CACHE_EXPIRY RUNTIME))"

text \<open>\<^verbatim>\<open>getOfflineResponse(request)\<close>.\<close>

definition offline_503 :: response where
  "offline_503 =
     \<lparr>status = 503, statusText = ''Service Unavailable'', url = [], hdr_date = None,
      content_type = Some ''text/plain'', body = ''Offline''\<rparr>"

definition getOfflineResponse ::
  "request \<Rightarrow> sw_state \<Rightarrow> response option result \<times> sw_state" where
  "getOfflineResponse req st =
     (if mode req = ''navigate'' then
        (let st1 = open_cache (RAVAN_FASHION_CACHE STATIC) st
         in (Resolves (cache_match (RAVAN_FASHION_CACHE STATIC) ''/offline.html'' (caches st1)), st1))
      else (Resolves (Some offline_503), st))"

text \<open>
  \<^verbatim>\<open>updateCache(request, cacheName)\<close> is called without \<^verbatim>\<open>await\<close>: its fetch is
  issued in the call, and \<open>updateCache_settle\<close> is what it does once the network has
  answered.
\<close>

definition updateCache :: "request \<Rightarrow> string \<Rightarrow> sw_state \<Rightarrow> sw_state" where
  "updateCache req cacheName st =
     spawn (UpdateCache req cacheName) (start_fetch (r_url req) st)"

definition updateCache_settle :: "env \<Rightarrow> request \<Rightarrow> string \<Rightarrow> sw_state \<Rightarrow> sw_state" where
  "updateCache_settle e req cacheName st =
     (case net e (r_url req) of
        Resolves network \<Rightarrow>
          if ok network then
            (case request_put cacheName req network (open_cache cacheName st) of
               (Resolves x, st1) \<Rightarrow> st1
             | (Rejects err, st1) \<Rightarrow> console_warn ''Background cache update failed:'' st1)
          else st
      | Rejects err \<Rightarrow> console_warn ''Background cache update failed:'' st)"

text \<open>
  \<^verbatim>\<open>cacheFirst(request, cacheName)\<close>. The \<^verbatim>\<open>try\<close> block holds the fetch and the put:
  when either rejects, the \<^verbatim>\<open>catch\<close> block answers with the offline response.
\<close>

definition cacheFirst ::
  "env \<Rightarrow> request \<Rightarrow> string \<Rightarrow> sw_state \<Rightarrow> response option result \<times> sw_state" where
  "cacheFirst e req cacheName st =
     (let st1 = open_cache cacheName st
      in case request_match cacheName req (caches st1) of
           Some cached \<Rightarrow>
             (Resolves (Some cached),
              if isCacheExpired e cached then updateCache req cacheName st1 else st1)
         | None \<Rightarrow>
             (case net_fetch e (r_url req) st1 of
                (Resolves network, st2) \<Rightarrow>
                  if ok network then
                    (case request_put cacheName req network st2 of
                       (Resolves x, st3) \<Rightarrow> (Resolves (Some network), st3)
                     | (Rejects err, st3) \<Rightarrow>
                         getOfflineResponse req
                           (console_warn
                              ''Network request failed, returning cached or offline response:'' st3))
                  else (Resolves (Some network), st2)
              | (Rejects err, st2) \<Rightarrow>
                  getOfflineResponse req
                    (console_warn ''Network request failed, returning cached or offline response:'' st2)))"

text \<open>
  \<^verbatim>\<open>networkFirst(request, cacheName)\<close>. Here too the put is inside the \<^verbatim>\<open>try\<close>
  block; \<open>networkFirst_catch\<close> is the \<^verbatim>\<open>catch\<close> block.
\<close>

definition networkFirst_catch ::
  "request \<Rightarrow> string \<Rightarrow> sw_state \<Rightarrow> response option result \<times> sw_state" where
  "networkFirst_catch req cacheName st =
     (let st1 = open_cache cacheName
                  (console_warn ''Network request failed, falling back to cache:'' st)
      in case request_match cacheName req (caches st1) of
           Some cached \<Rightarrow> (Resolves (Some cached), st1)
         | None \<Rightarrow> getOfflineResponse req st1)"

definition networkFirst ::
  "env \<Rightarrow> request \<Rightarrow> string \<Rightarrow> sw_state \<Rightarrow> response option result \<times> sw_state" where
  "networkFirst e req cacheName st =
     (case net_fetch e (r_url req) st of
        (Resolves network, st1) \<Rightarrow>
          if ok network then
            (case request_put cacheName req network (open_cache cacheName st1) of
               (Resolves x, st2) \<Rightarrow> (Resolves (Some network), st2)
             | (Rejects err, st2) \<Rightarrow> networkFirst_catch req cacheName st2)
          else (Resolves (Some network), st1)
      | (Rejects err, st1) \<Rightarrow> networkFirst_catch req cacheName st1)"

text \<open>
  \<^verbatim>\<open>staleWhileRevalidate(request, cacheName)\<close>. The fetch is always issued. With a
  cached response the promise chain is left to run in the background
  (\<open>fetchPromise_settle\<close>); without one the caller waits for it. The chain's
  \<^verbatim>\<open>catch\<close> handler, which answers with the cached value, takes a rejected fetch and a
  rejected put alike.
\<close>

definition fetchPromise_settle :: "env \<Rightarrow> request \<Rightarrow> string \<Rightarrow> sw_state \<Rightarrow> sw_state" where
  "fetchPromise_settle e req cacheName st =
     (case net e (r_url req) of
        Resolves network \<Rightarrow>
          if ok network then
            (case request_put cacheName req network st of
               (Resolves x, st1) \<Rightarrow> st1
             | (Rejects err, st1) \<Rightarrow> st1)
          else st
      | Rejects err \<Rightarrow> st)"

definition staleWhileRevalidate ::
  "env \<Rightarrow> request \<Rightarrow> string \<Rightarrow> sw_state \<Rightarrow> response option result \<times> sw_state" where
  "staleWhileRevalidate e req cacheName st =
     (let st1 = open_cache cacheName st;
          cached = request_match cacheName req (caches st1);
          st2 = start_fetch (r_url req) st1
      in case cached of
           Some c \<Rightarrow> (Resolves (Some c), spawn (FetchPromise req cacheName) st2)
         | None \<Rightarrow>
             (case net e (r_url req) of
                Resolves network \<Rightarrow>
                  if ok network then
                    (case request_put cacheName req network st2 of
                       (Resolves x, st3) \<Rightarrow> (Resolves (Some network), st3)
                     | (Rejects err, st3) \<Rightarrow> (Resolves cached, st3))
                  else (Resolves (Some network), st2)
              | Rejects err \<Rightarrow> (Resolves cached, st2)))"

text \<open>The request classifiers.\<close>

definition isStaticAsset :: "request \<Rightarrow> bool" where
  "isStaticAsset req =
     (let staticExtensions = [''.css'', ''.js'', ''.woff'', ''.woff2'', ''.ttf'', ''.eot''];
          p = toLowerCase (pathname req)
      in list_ex (\<lambda>ext. endsWith p ext) staticExtensions \<or> str_includes p ''assets/optimized/'')"

definition isImageRequest :: "request \<Rightarrow> bool" where
  "isImageRequest req =
     (let imageExtensions = [''.jpg'', ''.jpeg'', ''.png'', ''.gif'', ''.webp'', ''.svg''];
          p = toLowerCase (pathname req)
      in list_ex (\<lambda>ext. endsWith p ext) imageExtensions \<or> has_width req \<or> has_height req)"

definition isAPIRequest :: "request \<Rightarrow> bool" where
  "isAPIRequest req =
     (str_includes (pathname req) ''/api/'' \<or> str_includes (pathname req) ''/cart/''
      \<or> str_includes (pathname req) ''/search'')"

definition isPageRequest :: "request \<Rightarrow> bool" where
  "isPageRequest req =
     (mode req = ''navigate''
      \<or> (case accept req of None \<Rightarrow> False | Some a \<Rightarrow> str_includes a ''text/html''))"

text \<open>\<^verbatim>\<open>fetch(event)\<close>, the dispatcher, with the five handlers it calls.\<close>

definition handleStaticAsset ::
  "env \<Rightarrow> request \<Rightarrow> sw_state \<Rightarrow> response option result \<times> sw_state" where
  "handleStaticAsset e req st = cacheFirst e req (RAVAN_FASHION_CACHE STATIC) st"

definition handleImageRequest ::
  "env \<Rightarrow> request \<Rightarrow> sw_state \<Rightarrow> response option result \<times> sw_state" where
  "handleImageRequest e req st = cacheFirst e req (RAVAN_FASHION_CACHE IMAGES) st"

definition handleAPIRequest ::
  "env \<Rightarrow> request \<Rightarrow> sw_state \<Rightarrow> response option result \<times> sw_state" where
  "handleAPIRequest e req st = networkFirst e req (RAVAN_FASHION_CACHE API) st"

definition handlePageRequest ::
  "env \<Rightarrow> request \<Rightarrow> sw_state \<Rightarrow> response option result \<times> sw_state" where
  "handlePageRequest e req st = staleWhileRevalidate e req (RAVAN_FASHION_CACHE PAGES) st"

definition handleGenericRequest ::
  "env \<Rightarrow> request \<Rightarrow> sw_state \<Rightarrow> response option result \<times> sw_state" where
  "handleGenericRequest e req st = networkFirst e req (RAVAN_FASHION_CACHE RUNTIME) st"

definition fetch :: "env \<Rightarrow> request \<Rightarrow> sw_state \<Rightarrow> response option result \<times> sw_state" where
  "fetch e req st =
     (if isStaticAsset req then handleStaticAsset e req st
      else if isImageRequest req then handleImageRequest e req st
      else if isAPIRequest req then handleAPIRequest e req st
      else if isPageRequest req then handlePageRequest e req st
      else handleGenericRequest e req st)"

text \<open>
  Once a handler has answered, the background tasks it left run to their end, in the
  order they were started.
\<close>

fun settle :: "env \<Rightarrow> task \<Rightarrow> sw_state \<Rightarrow> sw_state" where
  "settle e (UpdateCache req cacheName) st = updateCache_settle e req cacheName st"
| "settle e (FetchPromise req cacheName) st = fetchPromise_settle e req cacheName st"
| "settle e (BackgroundRevalidate req cacheName) st = fetchPromise_settle e req cacheName st"

definition run_pending :: "env \<Rightarrow> sw_state \<Rightarrow> sw_state" where
  "run_pending e st = fold (settle e) (pending st) (st\<lparr>pending := []\<rparr>)"

subsection \<open>Install and activate\<close>

text \<open>
  \<^verbatim>\<open>cache.addAll(urls)\<close> issues every request and stores the responses only when
  all of them are ok and no URL occurs twice; otherwise it rejects and stores
  nothing. \<^verbatim>\<open>cache.add(url)\<close> is \<^verbatim>\<open>addAll([url])\<close>.
\<close>

definition fetched_ok :: "env \<Rightarrow> string \<Rightarrow> bool" where
  "fetched_ok e u = (case net e u of Resolves r \<Rightarrow> ok r | Rejects err \<Rightarrow> False)"

definition put_fetched :: "env \<Rightarrow> string \<Rightarrow> string \<Rightarrow> sw_state \<Rightarrow> sw_state" where
  "put_fetched e n u st = (case net e u of Resolves r \<Rightarrow> put_cache n u r st | Rejects err \<Rightarrow> st)"

definition cache_addAll ::
  "env \<Rightarrow> string \<Rightarrow> string list \<Rightarrow> sw_state \<Rightarrow> unit result \<times> sw_state" where
  "cache_addAll e n urls st =
     (let st1 = fold start_fetch urls st
      in if \<not> list_all (fetched_ok e) urls then (Rejects TypeError, st1)
         else if \<not> distinct urls then (Rejects InvalidStateError, st1)
         else (Resolves (), fold (put_fetched e n) urls st1))"

definition cache_add :: "env \<Rightarrow> string \<Rightarrow> string \<Rightarrow> sw_state \<Rightarrow> unit result \<times> sw_state" where
  "cache_add e n u st = cache_addAll e n [u] st"

definition getPrecacheUrls :: "string list" where
  "getPrecacheUrls =
     [''/assets/optimized/ravan-fashion-critical.css'',
      ''/assets/optimized/resource-loader-optimized.js'',
      ''/assets/optimized/image-loader-optimized.js'',
      ''https://fonts.gstatic.com/s/notosanstamil/v15/nEKhbZ7WJw0q8sY7zBm2m3q0uA.woff2'',
      ''/assets/placeholder.svg'',
      ''/offline.html'']"

text \<open>
  \<^verbatim>\<open>precacheCriticalResources()\<close>, with \<^verbatim>\<open>this.precacheUrls\<close> as a parameter: one
  \<^verbatim>\<open>addAll\<close>, and when it rejects each URL is added alone, a failure being logged.
\<close>

definition add_tolerant :: "env \<Rightarrow> string \<Rightarrow> sw_state \<Rightarrow> sw_state" where
  "add_tolerant e u st =
     (case cache_add e (RAVAN_FASHION_CACHE STATIC) u st of
        (Resolves x, st1) \<Rightarrow> st1
      | (Rejects err, st1) \<Rightarrow> console_warn (''Failed to cache '' @ u @ '':'') st1)"

definition precacheCriticalResources ::
  "env \<Rightarrow> string list \<Rightarrow> sw_state \<Rightarrow> unit result \<times> sw_state" where
  "precacheCriticalResources e precacheUrls st =
     (case cache_addAll e (RAVAN_FASHION_CACHE STATIC) precacheUrls
             (open_cache (RAVAN_FASHION_CACHE STATIC) st) of
        (Resolves x, st1) \<Rightarrow>
          (Resolves (), console_log ''Critical resources precached successfully'' st1)
      | (Rejects err, st1) \<Rightarrow>
          (Resolves (),
           fold (add_tolerant e) precacheUrls
             (console_warn ''Failed to precache some resources:'' st1)))"

definition skipWaiting :: "sw_state \<Rightarrow> sw_state" where
  "skipWaiting st = st\<lparr>skipWaiting_calls := Suc (skipWaiting_calls st)\<rparr>"

definition install :: "env \<Rightarrow> sw_state \<Rightarrow> unit result \<times> sw_state" where
  "install e st =
     (case precacheCriticalResources e getPrecacheUrls (console_log ''Service Worker installing...'' st) of
        (r, st1) \<Rightarrow> (r, skipWaiting st1))"

text \<open>\<^verbatim>\<open>cleanupOldCaches()\<close>.\<close>

definition currentCaches :: "string list" where
  "currentCaches = map RAVAN_FASHION_CACHE [STATIC, IMAGES, PAGES, API, RUNTIME]"

definition cleanupOldCaches :: "cache_storage \<Rightarrow> cache_storage" where
  "cleanupOldCaches cs =
     fold caches_delete
       (filter (\<lambda>cacheName. cacheName \<notin> set currentCaches) (caches_keys cs)) cs"

definition activate :: "sw_state \<Rightarrow> unit result \<times> sw_state" where
  "activate st =
     (let st1 = console_log ''Service Worker activating...'' st
      in (Resolves (), st1\<lparr>caches := cleanupOldCaches (caches st1)\<rparr>))"

subsection \<open>Messages\<close>



















section \<open>The first worker\<close>


definition CRITICAL_CACHE :: string where
  "CRITICAL_CACHE = ''ravan-fashion-critical-v1''"

definition IMAGE_CACHE :: string where
  "IMAGE_CACHE = ''ravan-fashion-images-v1''"

definition FONT_CACHE :: string where
  "FONT_CACHE = ''ravan-fashion-fonts-v1''"

definition CRITICAL_ASSETS :: "string list" where
  "CRITICAL_ASSETS =
     [''/assets/ravan-fashion-critical.css'',
      ''/assets/ravan-fashion-optimized.js'',
      ''/assets/section-cultural-spotlight.css'',
      ''/assets/section-cultural-product-details.css'',
      ''/assets/section-design-story.css'',
      ''https://fonts.googleapis.com/css2?family=Tamil+Sangam+MN&family=Noto+Sans+Tamil&display=swap'']"

definition CULTURAL_IMAGES :: "string list" where
  "CULTURAL_IMAGES = [''/files/kolam-pattern.svg'', ''/files/temple-arch.svg'', ''/files/silk-texture.jpg'']"

text \<open>
  The install listener waits for \<^verbatim>\<open>Promise.all\<close> of two \<^verbatim>\<open>addAll\<close> calls and
  \<^verbatim>\<open>skipWaiting()\<close>: all three run, and the whole rejects when one of them does.
\<close>

definition install_listener :: "env \<Rightarrow> sw_state \<Rightarrow> unit result \<times> sw_state" where
  "install_listener e st =
     (case cache_addAll e CRITICAL_CACHE CRITICAL_ASSETS (open_cache CRITICAL_CACHE st) of
        (r1, st1) \<Rightarrow>
          (case cache_addAll e IMAGE_CACHE CULTURAL_IMAGES (open_cache IMAGE_CACHE st1) of
             (r2, st2) \<Rightarrow>
               (case r1 of
                  Rejects err \<Rightarrow> (Rejects err, skipWaiting st2)
                | Resolves x \<Rightarrow>
                    (case r2 of
                       Rejects err \<Rightarrow> (Rejects err, skipWaiting st2)
                     | Resolves y \<Rightarrow> (Resolves (), skipWaiting st2)))))"

text \<open>The activate listener.\<close>

definition activate_listener :: "cache_storage \<Rightarrow> cache_storage" where
  "activate_listener cs =
     fold (\<lambda>cacheName acc.
             if startsWith cacheName ''ravan-fashion-'' \<and> \<not> endsWith cacheName ''-v1''
             then caches_delete cacheName acc else acc)
       (caches_keys cs) cs"



section \<open>Notions used to state the properties\<close>


text \<open>
  Going from storage \<open>cs0\<close> to storage \<open>cs\<close>, every entry of \<open>cs\<close> was there already
  or is an ok response.
\<close>

definition only_ok_added :: "cache_storage \<Rightarrow> cache_storage \<Rightarrow> bool" where
  "only_ok_added cs0 cs =
     (\<forall>n k r. cache_match n k cs = Some r \<longrightarrow> cache_match n k cs0 = Some r \<or> ok r)"

section \<open>Concrete inputs\<close>

text \<open>Requests, responses, networks and states used to run the model.\<close>

definition ex_request :: "string \<Rightarrow> string \<Rightarrow> string \<Rightarrow> request" where
  "ex_request u p m =
     \<lparr>r_url = u, r_method = ''GET'', hostname = ''shop.example'', pathname = p,
      has_width = False, has_height = False, mode = m, accept = None\<rparr>"

definition ex_response :: "nat \<Rightarrow> string \<Rightarrow> jsdate option \<Rightarrow> string \<Rightarrow> response" where
  "ex_response s u d b =
     \<lparr>status = s, statusText = [], url = u, hdr_date = d, content_type = None, body = b\<rparr>"

definition init_state :: "cache_storage \<Rightarrow> sw_state" where
  "init_state cs =
     \<lparr>caches = cs, fetch_log = [], pending = [], console = [], skipWaiting_calls = 0,
      posted = []\<rparr>"

definition offline_env :: "int \<Rightarrow> env" where
  "offline_env t = \<lparr>net = (\<lambda>u. Rejects NetworkError), now = t\<rparr>"

text \<open>A network that answers every URL with the given status.\<close>

definition status_env :: "nat \<Rightarrow> int \<Rightarrow> env" where
  "status_env s t = \<lparr>net = (\<lambda>u. Resolves (ex_response s u (Some (Ms t)) ''fresh'')), now = t\<rparr>"

text \<open>A network that answers 404 for one URL and 200 for every other.\<close>

definition missing_env :: "string \<Rightarrow> env" where
  "missing_env bad =
     \<lparr>net = (\<lambda>u. Resolves (ex_response (if u = bad then 404 else 200) u (Some (Ms 0)) ''fresh'')),
      now = 0\<rparr>"

definition app_css :: request where
  "app_css = ex_request ''https://shop.example/assets/app.css'' ''/assets/app.css'' ''no-cors''"


definition api_cart :: request where
  "api_cart = ex_request ''https://shop.example/api/cart'' ''/api/cart'' ''cors''"

definition about_page :: request where
  "about_page = ex_request ''https://shop.example/pages/about'' ''/pages/about'' ''navigate''"

definition search_page :: request where
  "search_page = ex_request ''https://shop.example/search?q=veshti'' ''/search'' ''navigate''"

definition cart_add :: request where
  "cart_add = (ex_request ''https://shop.example/cart/add'' ''/cart/add'' ''cors'')
                \<lparr>r_method := ''POST''\<rparr>"

text \<open>A response stored at time 0, and the hours of the clock in milliseconds.\<close>

definition stored :: "string \<Rightarrow> response" where
  "stored u = ex_response 200 u (Some (Ms 0)) ''stored''"

definition hours :: "int \<Rightarrow> int" where
  "hours h = h * 60 * 60 * 1000"

definition one_entry :: "string \<Rightarrow> request \<Rightarrow> sw_state" where
  "one_entry cacheName req = init_state [(cacheName, [(r_url req, stored (r_url req))])]"

section \<open>Facts about the cache storage\<close>

lemma cache_match_open [simp]: "cache_match n k (caches_open m cs) = cache_match n k cs"
  by (auto simp: cache_match_def caches_open_def split: option.splits if_splits)

lemma cache_match_put [simp]:
  "cache_match n' k' (cache_put n k r cs) =
     (if n' = n \<and> k' = k then Some r else cache_match n' k' cs)"
  by (auto simp: cache_match_def cache_put_def map_of_map_default update_conv' split: option.splits)

lemma caches_open_present: "cache_match n k cs = Some r \<Longrightarrow> caches_open n cs = cs"
  by (auto simp: cache_match_def caches_open_def split: option.splits)

lemma open_cache_present: "cache_match n k (caches st) = Some r \<Longrightarrow> open_cache n st = st"
  by (simp add: open_cache_def caches_open_present)

lemma request_match_iff:
  "request_match n req cs = Some r \<longleftrightarrow>
     r_method req = ''GET'' \<and> cache_match n (r_url req) cs = Some r"
  by (simp add: request_match_def)

lemma request_match_open [simp]:
  "request_match n req (caches_open m cs) = request_match n req cs"
  by (simp add: request_match_def)

lemma request_match_present:
  "request_match n req (caches st) = Some r \<Longrightarrow> open_cache n st = st"
  by (auto simp: request_match_iff intro: open_cache_present)

lemma request_put_get:
  "r_method req = ''GET'' \<Longrightarrow>
   request_put n req r st = (Resolves (), put_cache n (r_url req) r st)"
  by (simp add: request_put_def)

lemma caches_simps [simp]:
  "caches (start_fetch u st) = caches st"
  "caches (spawn t st) = caches st"
  "caches (console_warn m st) = caches st"
  "caches (console_log m st) = caches st"
  "caches (open_cache n st) = caches_open n (caches st)"
  "caches (put_cache n k r st) = cache_put n k r (caches st)"
  by (simp_all add: start_fetch_def spawn_def console_warn_def console_log_def open_cache_def
      put_cache_def)

section \<open>Cache-first and expiry\<close>

lemma cacheFirst_hit:
  assumes "request_match cacheName req (caches st) = Some cached"
  shows "cacheFirst e req cacheName st =
           (Resolves (Some cached),
            if isCacheExpired e cached then updateCache req cacheName st else st)"
  using assms by (simp add: cacheFirst_def request_match_present)

text \<open>
  C9. A cached response without a \<^verbatim>\<open>date\<close> header is never expired, whatever the clock
  says; cache-first answers a request that matches such an entry with the entry and leaves
  the worker's state as it was: no fetch is issued and no background task is started.
\<close>

theorem no_date_served_as_fresh:
  assumes "hdr_date cached = None"
  shows "\<not> isCacheExpired e cached \<and>
         (request_match cacheName req (caches st) = Some cached \<longrightarrow>
            cacheFirst e req cacheName st = (Resolves (Some cached), st))"
  using assms by (simp add: cacheFirst_hit isCacheExpired_def)

theorem no_date_served_as_fresh_witness:
  "hdr_date (ex_response 200 (r_url app_css) None ''stored'') = None \<and>
   request_match (RAVAN_FASHION_CACHE STATIC) app_css
      (caches (init_state [(RAVAN_FASHION_CACHE STATIC,
                    [(r_url app_css, ex_response 200 (r_url app_css) None ''stored'')])]))
     = Some (ex_response 200 (r_url app_css) None ''stored'') \<and>
   \<not> isCacheExpired (offline_env (hours 100000)) (ex_response 200 (r_url app_css) None ''stored'') \<and>
   cacheFirst (offline_env (hours 100000)) app_css (RAVAN_FASHION_CACHE STATIC)
      (init_state [(RAVAN_FASHION_CACHE STATIC,
                    [(r_url app_css, ex_response 200 (r_url app_css) None ''stored'')])])
     = (Resolves (Some (ex_response 200 (r_url app_css) None ''stored'')),
        init_state [(RAVAN_FASHION_CACHE STATIC,
                     [(r_url app_css, ex_response 200 (r_url app_css) None ''stored'')])])"
  using no_date_served_as_fresh [of "ex_response 200 (r_url app_css) None ''stored''"
      "offline_env (hours 100000)" "RAVAN_FASHION_CACHE STATIC" app_css
      "init_state [(RAVAN_FASHION_CACHE STATIC,
                    [(r_url app_css, ex_response 200 (r_url app_css) None ''stored'')])]"]
  by (simp add: ex_response_def cache_match_def request_match_def init_state_def app_css_def
      ex_request_def)

text \<open>
  C3. The request for \<^verbatim>\<open>/assets/app.css\<close> is of the static class, whose duration is 7
  days. Its cached response, dated two hours ago, is nevertheless expired: the URL holds
  none of the words \<^verbatim>\<open>static\<close>, \<^verbatim>\<open>images\<close>, \<^verbatim>\<open>pages\<close>, \<^verbatim>\<open>api\<close>, so
  \<^verbatim>\<open>isCacheExpired\<close> compares the age with the one hour of \<^verbatim>\<open>CACHE_EXPIRY.RUNTIME\<close>.
\<close>

theorem static_entry_expires_after_one_hour:
  "isStaticAsset app_css \<and>
   url (stored (r_url app_css)) = ''https://shop.example/assets/app.css'' \<and>
   hdr_date (stored (r_url app_css)) = Some (Ms 0) \<and>
   now (offline_env (hours 2)) - 0 < CACHE_EXPIRY STATIC \<and>
   isCacheExpired (offline_env (hours 2)) (stored (r_url app_css))"
  by (simp add: isStaticAsset_def app_css_def ex_request_def toLowerCase_def lower_char_def
      endsWith_def suffix_to_prefix stored_def ex_response_def offline_env_def hours_def
      isCacheExpired_def age_exceeds_def)

text \<open>
  C2. The dispatcher serves \<^verbatim>\<open>/assets/app.css\<close> cache-first from the static cache. With
  an entry dated two hours ago, younger than the 7 days of the static class, the entry is
  returned, yet a fetch of the URL is issued.
\<close>

theorem fresh_static_entry_is_refetched:
  "isStaticAsset app_css \<and>
   request_match (RAVAN_FASHION_CACHE STATIC) app_css
     (caches (one_entry (RAVAN_FASHION_CACHE STATIC) app_css)) = Some (stored (r_url app_css)) \<and>
   cache_match (RAVAN_FASHION_CACHE STATIC) (r_url app_css)
     (caches (one_entry (RAVAN_FASHION_CACHE STATIC) app_css)) = Some (stored (r_url app_css)) \<and>
   hdr_date (stored (r_url app_css)) = Some (Ms 0) \<and>
   now (offline_env (hours 2)) - 0 < CACHE_EXPIRY STATIC \<and>
   fst (fetch (offline_env (hours 2)) app_css (one_entry (RAVAN_FASHION_CACHE STATIC) app_css))
     = Resolves (Some (stored (r_url app_css))) \<and>
   fetch_log (snd (fetch (offline_env (hours 2)) app_css
                     (one_entry (RAVAN_FASHION_CACHE STATIC) app_css)))
     = [r_url app_css] \<and>
   pending (snd (fetch (offline_env (hours 2)) app_css
                   (one_entry (RAVAN_FASHION_CACHE STATIC) app_css)))
     = [UpdateCache app_css (RAVAN_FASHION_CACHE STATIC)]"
  by (simp add: isStaticAsset_def app_css_def ex_request_def toLowerCase_def lower_char_def
      endsWith_def suffix_to_prefix stored_def ex_response_def offline_env_def hours_def
      isCacheExpired_def age_exceeds_def fetch_def handleStaticAsset_def cacheFirst_def
      one_entry_def init_state_def open_cache_def caches_open_def cache_match_def
      request_match_def updateCache_def spawn_def start_fetch_def)

section \<open>Network-first\<close>

lemma getOfflineResponse_fst:
  "fst (getOfflineResponse req st) =
     (if mode req = ''navigate''
      then Resolves (cache_match (RAVAN_FASHION_CACHE STATIC) ''/offline.html'' (caches st))
      else Resolves (Some offline_503))"
  by (simp add: getOfflineResponse_def Let_def)

lemma networkFirst_catch_fst:
  "fst (networkFirst_catch req cacheName st) =
     (case request_match cacheName req (caches st) of
        Some cached \<Rightarrow> Resolves (Some cached)
      | None \<Rightarrow>
          if mode req = ''navigate''
          then Resolves (cache_match (RAVAN_FASHION_CACHE STATIC) ''/offline.html'' (caches st))
          else Resolves (Some offline_503))"
  by (simp add: networkFirst_catch_def Let_def getOfflineResponse_fst split: option.splits)

lemma networkFirst_rejected_fetch:
  "net e (r_url req) = Rejects err \<Longrightarrow>
   networkFirst e req cacheName st = networkFirst_catch req cacheName (start_fetch (r_url req) st)"
  by (simp add: networkFirst_def net_fetch_def)

lemma networkFirst_not_ok:
  "net e (r_url req) = Resolves network \<Longrightarrow> \<not> ok network \<Longrightarrow>
   networkFirst e req cacheName st = (Resolves (Some network), start_fetch (r_url req) st)"
  by (simp add: networkFirst_def net_fetch_def)

lemma networkFirst_stored:
  "net e (r_url req) = Resolves network \<Longrightarrow> ok network \<Longrightarrow> r_method req = ''GET'' \<Longrightarrow>
   networkFirst e req cacheName st =
     (Resolves (Some network),
      put_cache cacheName (r_url req) network (open_cache cacheName (start_fetch (r_url req) st)))"
  by (simp add: networkFirst_def net_fetch_def request_put_get)

text \<open>
  A request whose method is not \<^verbatim>\<open>GET\<close> cannot be put: an ok answer to it ends in the
  \<^verbatim>\<open>catch\<close> block like a rejected fetch. A \<^verbatim>\<open>POST\<close> to \<^verbatim>\<open>/cart/add\<close> that the
  network answers with 200 gets the 503 placeholder.
\<close>

lemma networkFirst_put_rejected:
  "net e (r_url req) = Resolves network \<Longrightarrow> ok network \<Longrightarrow> r_method req \<noteq> ''GET'' \<Longrightarrow>
   networkFirst e req cacheName st =
     networkFirst_catch req cacheName (open_cache cacheName (start_fetch (r_url req) st))"
  by (simp add: networkFirst_def net_fetch_def request_put_def)

lemma post_answered_ok_gets_placeholder:
  "isAPIRequest cart_add \<and> \<not> isStaticAsset cart_add \<and> \<not> isImageRequest cart_add \<and>
   fst (fetch (status_env 200 0) cart_add (init_state [])) = Resolves (Some offline_503)"
proof -
  have cls: "isAPIRequest cart_add \<and> \<not> isStaticAsset cart_add \<and> \<not> isImageRequest cart_add"
    by (simp add: isAPIRequest_def isStaticAsset_def isImageRequest_def cart_add_def ex_request_def
        toLowerCase_def lower_char_def endsWith_def suffix_to_prefix)
  have n: "net (status_env 200 0) (r_url cart_add)
             = Resolves (ex_response 200 (r_url cart_add) (Some (Ms 0)) ''fresh'')"
    by (simp add: status_env_def)
  have o: "ok (ex_response 200 (r_url cart_add) (Some (Ms 0)) ''fresh'')"
    by (simp add: ok_def ex_response_def)
  have m: "r_method cart_add \<noteq> ''GET'' \<and> mode cart_add \<noteq> ''navigate''"
    by (simp add: cart_add_def ex_request_def)
  show ?thesis
    using cls m
    by (simp add: fetch_def handleAPIRequest_def networkFirst_put_rejected [OF n o]
        networkFirst_catch_fst request_match_def)
qed

text \<open>
  C4, as the code has it. When the fetch rejects, network-first answers from the cache:
  the cached entry if the request matches one; otherwise, for a request that is not a
  navigation, the 503 placeholder, which is not ok, and for a navigation the offline page
  that the static cache holds under \<^verbatim>\<open>/offline.html\<close>. When the network delivers a
  response that is not ok, that response is the answer and the caches stay as they were.
\<close>

theorem networkFirst_recovers_rejected_fetch:
  "(net e (r_url req) = Rejects err \<and> request_match cacheName req (caches st) = Some cached
    \<longrightarrow> fst (networkFirst e req cacheName st) = Resolves (Some cached)) \<and>
   (net e (r_url req) = Rejects err \<and> request_match cacheName req (caches st) = None
      \<and> mode req \<noteq> ''navigate''
    \<longrightarrow> fst (networkFirst e req cacheName st) = Resolves (Some offline_503)) \<and>
   (net e (r_url req) = Rejects err \<and> request_match cacheName req (caches st) = None
      \<and> mode req = ''navigate''
      \<and> cache_match (RAVAN_FASHION_CACHE STATIC) ''/offline.html'' (caches st) = Some page
    \<longrightarrow> fst (networkFirst e req cacheName st) = Resolves (Some page)) \<and>
   (net e (r_url req) = Resolves network \<and> \<not> ok network
    \<longrightarrow> fst (networkFirst e req cacheName st) = Resolves (Some network)
        \<and> caches (snd (networkFirst e req cacheName st)) = caches st) \<and>
   \<not> ok offline_503"
proof -
  have a: "fst (networkFirst e req cacheName st) = Resolves (Some cached)"
    if "net e (r_url req) = Rejects err \<and> request_match cacheName req (caches st) = Some cached"
    using that by (simp add: networkFirst_rejected_fetch networkFirst_catch_fst)
  have b: "fst (networkFirst e req cacheName st) = Resolves (Some offline_503)"
    if "net e (r_url req) = Rejects err \<and> request_match cacheName req (caches st) = None
      \<and> mode req \<noteq> ''navigate''"
    using that by (simp add: networkFirst_rejected_fetch networkFirst_catch_fst)
  have c: "fst (networkFirst e req cacheName st) = Resolves (Some page)"
    if "net e (r_url req) = Rejects err \<and> request_match cacheName req (caches st) = None
      \<and> mode req = ''navigate''
      \<and> cache_match (RAVAN_FASHION_CACHE STATIC) ''/offline.html'' (caches st) = Some page"
    using that by (simp add: networkFirst_rejected_fetch networkFirst_catch_fst)
  have d: "fst (networkFirst e req cacheName st) = Resolves (Some network)
        \<and> caches (snd (networkFirst e req cacheName st)) = caches st"
    if "net e (r_url req) = Resolves network \<and> \<not> ok network"
    using that by (simp add: networkFirst_not_ok)
  have f: "\<not> ok offline_503"
    by (simp add: ok_def offline_503_def)
  from a b c d f show ?thesis by blast
qed

theorem networkFirst_recovers_rejected_fetch_witness:
  "net (offline_env 0) (r_url api_cart) = Rejects NetworkError \<and>
   request_match (RAVAN_FASHION_CACHE API) api_cart
     (caches (one_entry (RAVAN_FASHION_CACHE API) api_cart)) = Some (stored (r_url api_cart)) \<and>
   fst (networkFirst (offline_env 0) api_cart (RAVAN_FASHION_CACHE API)
          (one_entry (RAVAN_FASHION_CACHE API) api_cart)) = Resolves (Some (stored (r_url api_cart))) \<and>
   request_match (RAVAN_FASHION_CACHE API) api_cart (caches (init_state [])) = None \<and>
   mode api_cart \<noteq> ''navigate'' \<and>
   fst (networkFirst (offline_env 0) api_cart (RAVAN_FASHION_CACHE API) (init_state []))
     = Resolves (Some offline_503) \<and>
   net (offline_env 0) (r_url search_page) = Rejects NetworkError \<and>
   mode search_page = ''navigate'' \<and>
   request_match (RAVAN_FASHION_CACHE API) search_page
     (caches (init_state [(RAVAN_FASHION_CACHE STATIC, [(''/offline.html'', stored ''/offline.html'')])]))
     = None \<and>
   cache_match (RAVAN_FASHION_CACHE STATIC) ''/offline.html''
     (caches (init_state [(RAVAN_FASHION_CACHE STATIC, [(''/offline.html'', stored ''/offline.html'')])]))
     = Some (stored ''/offline.html'') \<and>
   fst (networkFirst (offline_env 0) search_page (RAVAN_FASHION_CACHE API)
          (init_state [(RAVAN_FASHION_CACHE STATIC, [(''/offline.html'', stored ''/offline.html'')])]))
     = Resolves (Some (stored ''/offline.html'')) \<and>
   net (status_env 500 0) (r_url api_cart)
     = Resolves (ex_response 500 (r_url api_cart) (Some (Ms 0)) ''fresh'') \<and>
   \<not> ok (ex_response 500 (r_url api_cart) (Some (Ms 0)) ''fresh'') \<and>
   fst (networkFirst (status_env 500 0) api_cart (RAVAN_FASHION_CACHE API)
          (one_entry (RAVAN_FASHION_CACHE API) api_cart))
     = Resolves (Some (ex_response 500 (r_url api_cart) (Some (Ms 0)) ''fresh'')) \<and>
   caches (snd (networkFirst (status_env 500 0) api_cart (RAVAN_FASHION_CACHE API)
                  (one_entry (RAVAN_FASHION_CACHE API) api_cart)))
     = caches (one_entry (RAVAN_FASHION_CACHE API) api_cart)"
proof -
  let ?off = "init_state [(RAVAN_FASHION_CACHE STATIC, [(''/offline.html'', stored ''/offline.html'')])]"
  let ?r500 = "ex_response 500 (r_url api_cart) (Some (Ms 0)) ''fresh''"
  have down: "net (offline_env 0) u = Rejects NetworkError" for u
    by (simp add: offline_env_def)
  have hit: "request_match (RAVAN_FASHION_CACHE API) api_cart
     (caches (one_entry (RAVAN_FASHION_CACHE API) api_cart)) = Some (stored (r_url api_cart))"
    by (simp add: request_match_def cache_match_def one_entry_def init_state_def api_cart_def
        ex_request_def)
  have miss: "request_match (RAVAN_FASHION_CACHE API) api_cart (caches (init_state [])) = None"
    by (simp add: request_match_def cache_match_def init_state_def)
  have m1: "mode api_cart \<noteq> ''navigate''"
    by (simp add: api_cart_def ex_request_def)
  have m2: "mode search_page = ''navigate''"
    by (simp add: search_page_def ex_request_def)
  have miss2: "request_match (RAVAN_FASHION_CACHE API) search_page (caches ?off) = None"
    by (simp add: request_match_def cache_match_def init_state_def)
  have page: "cache_match (RAVAN_FASHION_CACHE STATIC) ''/offline.html'' (caches ?off)
                = Some (stored ''/offline.html'')"
    by (simp add: cache_match_def init_state_def)
  have n500: "net (status_env 500 0) (r_url api_cart) = Resolves ?r500 \<and> \<not> ok ?r500"
    by (simp add: status_env_def ok_def ex_response_def)
  show ?thesis
    using down hit miss m1 m2 miss2 page n500
      networkFirst_recovers_rejected_fetch [where e = "offline_env 0" and req = api_cart
        and err = NetworkError and cacheName = "RAVAN_FASHION_CACHE API"
        and st = "one_entry (RAVAN_FASHION_CACHE API) api_cart"
        and cached = "stored (r_url api_cart)"]
      networkFirst_recovers_rejected_fetch [where e = "offline_env 0" and req = api_cart
        and err = NetworkError and cacheName = "RAVAN_FASHION_CACHE API" and st = "init_state []"]
      networkFirst_recovers_rejected_fetch [where e = "offline_env 0" and req = search_page
        and err = NetworkError and cacheName = "RAVAN_FASHION_CACHE API" and st = ?off
        and page = "stored ''/offline.html''"]
      networkFirst_recovers_rejected_fetch [where e = "status_env 500 0" and req = api_cart
        and cacheName = "RAVAN_FASHION_CACHE API"
        and st = "one_entry (RAVAN_FASHION_CACHE API) api_cart" and network = ?r500]
    by simp
qed

text \<open>
  C4, as stated, fails in two places. With a cached entry for \<^verbatim>\<open>/api/cart\<close> and a
  network that answers 500, network-first returns the 500 response, not the cached
  entry. And an offline navigation that matches no entry is answered with the stored
  offline page, which is an ok response, not a placeholder with an error status.
\<close>

theorem networkFirst_returns_error_status:
  "net (status_env 500 (hours 1)) (r_url api_cart)
     = Resolves (ex_response 500 (r_url api_cart) (Some (Ms (hours 1))) ''fresh'') \<and>
   \<not> ok (ex_response 500 (r_url api_cart) (Some (Ms (hours 1))) ''fresh'') \<and>
   request_match (RAVAN_FASHION_CACHE API) api_cart
     (caches (one_entry (RAVAN_FASHION_CACHE API) api_cart)) = Some (stored (r_url api_cart)) \<and>
   fst (networkFirst (status_env 500 (hours 1)) api_cart (RAVAN_FASHION_CACHE API)
          (one_entry (RAVAN_FASHION_CACHE API) api_cart))
     = Resolves (Some (ex_response 500 (r_url api_cart) (Some (Ms (hours 1))) ''fresh'')) \<and>
   fst (networkFirst (status_env 500 (hours 1)) api_cart (RAVAN_FASHION_CACHE API)
          (one_entry (RAVAN_FASHION_CACHE API) api_cart))
     \<noteq> Resolves (Some (stored (r_url api_cart))) \<and>
   mode search_page = ''navigate'' \<and>
   net (offline_env 0) (r_url search_page) = Rejects NetworkError \<and>
   fst (networkFirst (offline_env 0) search_page (RAVAN_FASHION_CACHE API)
          (init_state [(RAVAN_FASHION_CACHE STATIC, [(''/offline.html'', stored ''/offline.html'')])]))
     = Resolves (Some (stored ''/offline.html'')) \<and>
   ok (stored ''/offline.html'')"
  by (simp add: networkFirst_def networkFirst_catch_def getOfflineResponse_def net_fetch_def
      status_env_def offline_env_def ok_def ex_response_def one_entry_def init_state_def
      cache_match_def request_match_def stored_def api_cart_def search_page_def ex_request_def
      open_cache_def caches_open_def console_warn_def start_fetch_def Let_def)

section \<open>Stale-while-revalidate and the background tasks\<close>

lemma settle_caches_cong:
  "caches s = caches s' \<Longrightarrow> caches (settle e t s) = caches (settle e t s')"
  by (cases t)
     (auto simp: updateCache_settle_def fetchPromise_settle_def request_put_def
        split: result.splits)

lemma fold_settle_caches_cong:
  "caches s = caches s' \<Longrightarrow> caches (fold (settle e) ts s) = caches (fold (settle e) ts s')"
proof (induction ts arbitrary: s s')
  case Nil
  then show ?case by simp
next
  case (Cons t ts)
  have "caches (settle e t s) = caches (settle e t s')"
    by (rule settle_caches_cong) (rule Cons.prems)
  then have "caches (fold (settle e) ts (settle e t s)) = caches (fold (settle e) ts (settle e t s'))"
    by (rule Cons.IH)
  then show ?case by simp
qed

lemma run_pending_spawn:
  "run_pending e (spawn t st) = settle e t (run_pending e st)"
  unfolding run_pending_def spawn_def by simp

lemma run_pending_start_fetch:
  "caches (run_pending e (start_fetch u st)) = caches (run_pending e st)"
proof -
  have "caches (fold (settle e) (pending st) (st\<lparr>fetch_log := fetch_log st @ [u], pending := []\<rparr>))
          = caches (fold (settle e) (pending st) (st\<lparr>pending := []\<rparr>))"
    by (rule fold_settle_caches_cong) simp
  then show ?thesis
    unfolding run_pending_def start_fetch_def by simp
qed

lemma staleWhileRevalidate_hit:
  assumes "request_match cacheName req (caches st) = Some c"
  shows "staleWhileRevalidate e req cacheName st =
           (Resolves (Some c), spawn (FetchPromise req cacheName) (start_fetch (r_url req) st))"
  using assms by (simp add: staleWhileRevalidate_def Let_def request_match_present)

lemma fetchPromise_settle_caches:
  "caches (fetchPromise_settle e req cacheName st) =
     (case net e (r_url req) of
        Resolves network \<Rightarrow>
          if ok network \<and> r_method req = ''GET''
          then cache_put cacheName (r_url req) network (caches st) else caches st
      | Rejects err \<Rightarrow> caches st)"
  by (simp add: fetchPromise_settle_def request_put_def split: result.splits)

text \<open>
  C5. When the request matches a cached entry, stale-while-revalidate answers with that
  entry whatever the network does. It answers before the network does: at that point
  the worker's state differs from the one it started in only by the fetch it has issued
  and by the promise chain left as a background task, so the caches are still as they
  were. Once the background tasks have run, an ok response from the network is the
  entry that the request matches; a response that is not ok, or a rejected fetch, has
  left the caches as they would be without it, and the caller still got the cached entry.
\<close>

theorem staleWhileRevalidate_serves_cache_then_updates:
  assumes "request_match cacheName req (caches st) = Some cached"
  shows "staleWhileRevalidate e req cacheName st =
           (Resolves (Some cached),
            st\<lparr>fetch_log := fetch_log st @ [r_url req],
               pending := pending st @ [FetchPromise req cacheName]\<rparr>) \<and>
         caches (snd (staleWhileRevalidate e req cacheName st)) = caches st \<and>
         (net e (r_url req) = Resolves network \<and> ok network \<longrightarrow>
            request_match cacheName req
              (caches (run_pending e (snd (staleWhileRevalidate e req cacheName st)))) = Some network) \<and>
         (net e (r_url req) = Resolves network \<and> \<not> ok network \<longrightarrow>
            caches (run_pending e (snd (staleWhileRevalidate e req cacheName st)))
              = caches (run_pending e st)) \<and>
         (net e (r_url req) = Rejects err \<longrightarrow>
            caches (run_pending e (snd (staleWhileRevalidate e req cacheName st)))
              = caches (run_pending e st))"
proof -
  let ?st1 = "start_fetch (r_url req) st"
  have get: "r_method req = ''GET''"
    using assms by (simp add: request_match_iff)
  have hit: "staleWhileRevalidate e req cacheName st =
           (Resolves (Some cached), spawn (FetchPromise req cacheName) ?st1)"
    by (rule staleWhileRevalidate_hit [OF assms])
  have run: "run_pending e (snd (staleWhileRevalidate e req cacheName st))
               = fetchPromise_settle e req cacheName (run_pending e ?st1)"
    by (simp add: hit run_pending_spawn)
  have a: "staleWhileRevalidate e req cacheName st =
           (Resolves (Some cached),
            st\<lparr>fetch_log := fetch_log st @ [r_url req],
               pending := pending st @ [FetchPromise req cacheName]\<rparr>)"
    by (simp add: hit spawn_def start_fetch_def)
  have b: "caches (snd (staleWhileRevalidate e req cacheName st)) = caches st"
    by (simp add: hit)
  have c: "request_match cacheName req
              (caches (run_pending e (snd (staleWhileRevalidate e req cacheName st)))) = Some network"
    if "net e (r_url req) = Resolves network \<and> ok network"
    using that get by (simp add: run fetchPromise_settle_caches request_match_def)
  have d: "caches (run_pending e (snd (staleWhileRevalidate e req cacheName st)))
              = caches (run_pending e st)"
    if "net e (r_url req) = Resolves network \<and> \<not> ok network"
    using that by (simp add: run fetchPromise_settle_caches run_pending_start_fetch)
  have f: "caches (run_pending e (snd (staleWhileRevalidate e req cacheName st)))
              = caches (run_pending e st)"
    if "net e (r_url req) = Rejects err"
    using that by (simp add: run fetchPromise_settle_caches run_pending_start_fetch)
  from a b c d f show ?thesis by blast
qed

theorem staleWhileRevalidate_serves_cache_then_updates_witness:
  "request_match (RAVAN_FASHION_CACHE PAGES) about_page
     (caches (one_entry (RAVAN_FASHION_CACHE PAGES) about_page)) = Some (stored (r_url about_page)) \<and>
   staleWhileRevalidate (status_env 200 (hours 5)) about_page (RAVAN_FASHION_CACHE PAGES)
          (one_entry (RAVAN_FASHION_CACHE PAGES) about_page)
     = (Resolves (Some (stored (r_url about_page))),
        (one_entry (RAVAN_FASHION_CACHE PAGES) about_page)
          \<lparr>fetch_log := [r_url about_page],
           pending := [FetchPromise about_page (RAVAN_FASHION_CACHE PAGES)]\<rparr>) \<and>
   net (status_env 200 (hours 5)) (r_url about_page)
     = Resolves (ex_response 200 (r_url about_page) (Some (Ms (hours 5))) ''fresh'') \<and>
   ok (ex_response 200 (r_url about_page) (Some (Ms (hours 5))) ''fresh'') \<and>
   request_match (RAVAN_FASHION_CACHE PAGES) about_page
     (caches (run_pending (status_env 200 (hours 5))
        (snd (staleWhileRevalidate (status_env 200 (hours 5)) about_page (RAVAN_FASHION_CACHE PAGES)
               (one_entry (RAVAN_FASHION_CACHE PAGES) about_page)))))
     = Some (ex_response 200 (r_url about_page) (Some (Ms (hours 5))) ''fresh'') \<and>
   net (status_env 404 (hours 5)) (r_url about_page)
     = Resolves (ex_response 404 (r_url about_page) (Some (Ms (hours 5))) ''fresh'') \<and>
   \<not> ok (ex_response 404 (r_url about_page) (Some (Ms (hours 5))) ''fresh'') \<and>
   caches (run_pending (status_env 404 (hours 5))
        (snd (staleWhileRevalidate (status_env 404 (hours 5)) about_page (RAVAN_FASHION_CACHE PAGES)
               (one_entry (RAVAN_FASHION_CACHE PAGES) about_page))))
     = caches (one_entry (RAVAN_FASHION_CACHE PAGES) about_page) \<and>
   net (offline_env (hours 5)) (r_url about_page) = Rejects NetworkError \<and>
   fst (staleWhileRevalidate (offline_env (hours 5)) about_page (RAVAN_FASHION_CACHE PAGES)
          (one_entry (RAVAN_FASHION_CACHE PAGES) about_page))
     = Resolves (Some (stored (r_url about_page))) \<and>
   caches (run_pending (offline_env (hours 5))
        (snd (staleWhileRevalidate (offline_env (hours 5)) about_page (RAVAN_FASHION_CACHE PAGES)
               (one_entry (RAVAN_FASHION_CACHE PAGES) about_page))))
     = caches (one_entry (RAVAN_FASHION_CACHE PAGES) about_page)"
proof -
  let ?st = "one_entry (RAVAN_FASHION_CACHE PAGES) about_page"
  have h: "request_match (RAVAN_FASHION_CACHE PAGES) about_page (caches ?st)
             = Some (stored (r_url about_page))"
    by (simp add: one_entry_def init_state_def cache_match_def request_match_def about_page_def
        ex_request_def)
  have idle: "run_pending e (one_entry n r) = one_entry n r" for e n r
    by (simp add: run_pending_def one_entry_def init_state_def)
  have logs: "fetch_log (one_entry n r) = [] \<and> pending (one_entry n r) = []" for n r
    by (simp add: one_entry_def init_state_def)
  have n1: "net (status_env 200 (hours 5)) (r_url about_page)
     = Resolves (ex_response 200 (r_url about_page) (Some (Ms (hours 5))) ''fresh'') \<and>
     ok (ex_response 200 (r_url about_page) (Some (Ms (hours 5))) ''fresh'')"
    by (simp add: status_env_def ok_def ex_response_def)
  have n2: "net (offline_env (hours 5)) (r_url about_page) = Rejects NetworkError"
    by (simp add: offline_env_def)
  have n3: "net (status_env 404 (hours 5)) (r_url about_page)
     = Resolves (ex_response 404 (r_url about_page) (Some (Ms (hours 5))) ''fresh'') \<and>
     \<not> ok (ex_response 404 (r_url about_page) (Some (Ms (hours 5))) ''fresh'')"
    by (simp add: status_env_def ok_def ex_response_def)
  note ok200 = staleWhileRevalidate_serves_cache_then_updates [OF h,
        where e = "status_env 200 (hours 5)" and err = NetworkError
        and network = "ex_response 200 (r_url about_page) (Some (Ms (hours 5))) ''fresh''"]
  note not_ok = staleWhileRevalidate_serves_cache_then_updates [OF h,
        where e = "status_env 404 (hours 5)" and err = NetworkError
        and network = "ex_response 404 (r_url about_page) (Some (Ms (hours 5))) ''fresh''"]
  note down = staleWhileRevalidate_serves_cache_then_updates [OF h,
        where e = "offline_env (hours 5)" and err = NetworkError
        and network = "stored (r_url about_page)"]
  have a: "staleWhileRevalidate (status_env 200 (hours 5)) about_page (RAVAN_FASHION_CACHE PAGES) ?st
     = (Resolves (Some (stored (r_url about_page))),
        ?st\<lparr>fetch_log := [r_url about_page],
            pending := [FetchPromise about_page (RAVAN_FASHION_CACHE PAGES)]\<rparr>)"
    using ok200 by (simp add: logs)
  have b: "request_match (RAVAN_FASHION_CACHE PAGES) about_page
     (caches (run_pending (status_env 200 (hours 5))
        (snd (staleWhileRevalidate (status_env 200 (hours 5)) about_page (RAVAN_FASHION_CACHE PAGES)
               ?st))))
     = Some (ex_response 200 (r_url about_page) (Some (Ms (hours 5))) ''fresh'')"
    using ok200 n1 by blast
  have c: "caches (run_pending (status_env 404 (hours 5))
        (snd (staleWhileRevalidate (status_env 404 (hours 5)) about_page (RAVAN_FASHION_CACHE PAGES)
               ?st)))
     = caches (run_pending (status_env 404 (hours 5)) ?st)"
    using not_ok n3 by blast
  have d: "fst (staleWhileRevalidate (offline_env (hours 5)) about_page (RAVAN_FASHION_CACHE PAGES) ?st)
     = Resolves (Some (stored (r_url about_page)))"
    using down by simp
  have f: "caches (run_pending (offline_env (hours 5))
        (snd (staleWhileRevalidate (offline_env (hours 5)) about_page (RAVAN_FASHION_CACHE PAGES)
               ?st)))
     = caches (run_pending (offline_env (hours 5)) ?st)"
    using down n2 by blast
  from h a n1 b n3 c n2 d f show ?thesis by (simp add: idle)
qed

section \<open>Only ok responses are stored\<close>

lemma only_ok_added_refl: "only_ok_added cs cs"
  by (simp add: only_ok_added_def)

lemma only_ok_added_open: "only_ok_added cs0 cs \<Longrightarrow> only_ok_added cs0 (caches_open n cs)"
  by (simp add: only_ok_added_def)

lemma only_ok_added_put:
  "only_ok_added cs0 cs \<Longrightarrow> ok r \<Longrightarrow> only_ok_added cs0 (cache_put n k r cs)"
  by (simp add: only_ok_added_def)

lemma only_ok_added_request_put:
  "only_ok_added cs0 (caches st) \<Longrightarrow> ok r \<Longrightarrow>
   only_ok_added cs0 (caches (snd (request_put n req r st)))"
  by (simp add: request_put_def only_ok_added_put)

lemma only_ok_added_getOfflineResponse:
  "only_ok_added cs0 (caches st) \<Longrightarrow> only_ok_added cs0 (caches (snd (getOfflineResponse req st)))"
  by (simp add: getOfflineResponse_def Let_def only_ok_added_open)

lemma only_ok_added_cacheFirst:
  "only_ok_added cs0 (caches st) \<Longrightarrow> only_ok_added cs0 (caches (snd (cacheFirst e req n st)))"
  by (auto simp: cacheFirst_def Let_def net_fetch_def updateCache_def request_put_def
      only_ok_added_open only_ok_added_put only_ok_added_getOfflineResponse
      split: option.splits result.splits)

lemma only_ok_added_networkFirst_catch:
  "only_ok_added cs0 (caches st) \<Longrightarrow>
   only_ok_added cs0 (caches (snd (networkFirst_catch req n st)))"
  by (auto simp: networkFirst_catch_def Let_def only_ok_added_open
      only_ok_added_getOfflineResponse split: option.splits)

lemma only_ok_added_networkFirst:
  "only_ok_added cs0 (caches st) \<Longrightarrow> only_ok_added cs0 (caches (snd (networkFirst e req n st)))"
  by (auto simp: networkFirst_def net_fetch_def request_put_def only_ok_added_open
      only_ok_added_put only_ok_added_networkFirst_catch split: result.splits)

lemma only_ok_added_staleWhileRevalidate:
  "only_ok_added cs0 (caches st) \<Longrightarrow>
   only_ok_added cs0 (caches (snd (staleWhileRevalidate e req n st)))"
  by (auto simp: staleWhileRevalidate_def Let_def request_put_def only_ok_added_open
      only_ok_added_put split: option.splits result.splits)

lemma only_ok_added_fetch:
  "only_ok_added cs0 (caches st) \<Longrightarrow> only_ok_added cs0 (caches (snd (fetch e req st)))"
  by (simp add: fetch_def handleStaticAsset_def handleImageRequest_def handleAPIRequest_def
      handlePageRequest_def handleGenericRequest_def only_ok_added_cacheFirst
      only_ok_added_networkFirst only_ok_added_staleWhileRevalidate)

lemma only_ok_added_updateCache_settle:
  "only_ok_added cs0 (caches st) \<Longrightarrow> only_ok_added cs0 (caches (updateCache_settle e req n st))"
  by (auto simp: updateCache_settle_def request_put_def only_ok_added_open only_ok_added_put
      split: result.splits)

lemma only_ok_added_fetchPromise_settle:
  "only_ok_added cs0 (caches st) \<Longrightarrow> only_ok_added cs0 (caches (fetchPromise_settle e req n st))"
  by (auto simp: fetchPromise_settle_def request_put_def only_ok_added_put split: result.splits)

lemma only_ok_added_settle:
  "only_ok_added cs0 (caches st) \<Longrightarrow> only_ok_added cs0 (caches (settle e t st))"
  by (cases t) (simp_all add: only_ok_added_updateCache_settle only_ok_added_fetchPromise_settle)

lemma only_ok_added_fold_settle:
  "only_ok_added cs0 (caches st) \<Longrightarrow> only_ok_added cs0 (caches (fold (settle e) ts st))"
proof (induction ts arbitrary: st)
  case Nil
  then show ?case by simp
next
  case (Cons t ts)
  have "only_ok_added cs0 (caches (settle e t st))"
    by (rule only_ok_added_settle) (rule Cons.prems)
  then have "only_ok_added cs0 (caches (fold (settle e) ts (settle e t st)))"
    by (rule Cons.IH)
  then show ?case by simp
qed

lemma only_ok_added_run_pending:
  assumes "only_ok_added cs0 (caches st)"
  shows "only_ok_added cs0 (caches (run_pending e st))"
proof -
  have "only_ok_added cs0 (caches (st\<lparr>pending := []\<rparr>))"
    using assms by simp
  then show ?thesis
    unfolding run_pending_def by (rule only_ok_added_fold_settle)
qed

text \<open>
  C10. Each strategy, the background refresh, and the dispatcher followed by the
  background tasks it left, change the caches only by adding ok responses: an entry
  found afterwards was there before, or it is an ok response.
\<close>

theorem only_ok_responses_are_stored:
  "only_ok_added (caches st) (caches (snd (cacheFirst e req cacheName st))) \<and>
   only_ok_added (caches st) (caches (snd (networkFirst e req cacheName st))) \<and>
   only_ok_added (caches st) (caches (snd (staleWhileRevalidate e req cacheName st))) \<and>
   only_ok_added (caches st) (caches (updateCache_settle e req cacheName st)) \<and>
   only_ok_added (caches st) (caches (snd (fetch e req st))) \<and>
   only_ok_added (caches st) (caches (run_pending e (snd (fetch e req st))))"
  by (simp add: only_ok_added_refl only_ok_added_cacheFirst only_ok_added_networkFirst
      only_ok_added_staleWhileRevalidate only_ok_added_updateCache_settle only_ok_added_fetch
      only_ok_added_run_pending)

theorem only_ok_responses_are_stored_witness:
  "cache_match (RAVAN_FASHION_CACHE STATIC) (r_url app_css)
     (caches (run_pending (status_env 200 0) (snd (fetch (status_env 200 0) app_css (init_state [])))))
     = Some (ex_response 200 (r_url app_css) (Some (Ms 0)) ''fresh'') \<and>
   cache_match (RAVAN_FASHION_CACHE STATIC) (r_url app_css) (caches (init_state [])) = None \<and>
   ok (ex_response 200 (r_url app_css) (Some (Ms 0)) ''fresh'') \<and>
   cache_match (RAVAN_FASHION_CACHE STATIC) (r_url app_css)
     (caches (run_pending (status_env 404 0) (snd (fetch (status_env 404 0) app_css (init_state [])))))
     = None"
proof -
  have static: "isStaticAsset app_css"
    by (simp add: isStaticAsset_def app_css_def ex_request_def toLowerCase_def lower_char_def
        endsWith_def suffix_to_prefix)
  have get: "r_method app_css = ''GET''"
    by (simp add: app_css_def ex_request_def)
  have h: "cache_match (RAVAN_FASHION_CACHE STATIC) (r_url app_css)
     (caches (run_pending (status_env 200 0) (snd (fetch (status_env 200 0) app_css (init_state [])))))
     = Some (ex_response 200 (r_url app_css) (Some (Ms 0)) ''fresh'')"
    by (simp add: static get fetch_def handleStaticAsset_def cacheFirst_def Let_def cache_match_def
        request_match_def request_put_def open_cache_def caches_open_def init_state_def
        net_fetch_def status_env_def start_fetch_def ok_def ex_response_def put_cache_def
        cache_put_def run_pending_def)
  have none: "cache_match (RAVAN_FASHION_CACHE STATIC) (r_url app_css)
     (caches (run_pending (status_env 404 0) (snd (fetch (status_env 404 0) app_css (init_state [])))))
     = None"
    by (simp add: static get fetch_def handleStaticAsset_def cacheFirst_def Let_def cache_match_def
        request_match_def request_put_def open_cache_def caches_open_def init_state_def
        net_fetch_def status_env_def start_fetch_def ok_def ex_response_def put_cache_def
        cache_put_def run_pending_def)
  have empty: "cache_match (RAVAN_FASHION_CACHE STATIC) (r_url app_css) (caches (init_state [])) = None"
    by (simp add: cache_match_def init_state_def)
  from only_ok_responses_are_stored [of "init_state []" "status_env 200 0" app_css]
  have "only_ok_added (caches (init_state []))
          (caches (run_pending (status_env 200 0) (snd (fetch (status_env 200 0) app_css (init_state [])))))"
    by blast
  with h empty have "ok (ex_response 200 (r_url app_css) (Some (Ms 0)) ''fresh'')"
    unfolding only_ok_added_def by fastforce
  with h none empty show ?thesis by simp
qed

section \<open>What the dispatcher resolves to\<close>

lemma getOfflineResponse_resolves: "\<exists>v. fst (getOfflineResponse req st) = Resolves v"
  by (simp add: getOfflineResponse_fst)






lemma getOfflineResponse_response:
  assumes "mode req \<noteq> ''navigate''
           \<or> cache_match (RAVAN_FASHION_CACHE STATIC) ''/offline.html'' (caches st) \<noteq> None"
  shows "\<exists>r. fst (getOfflineResponse req st) = Resolves (Some r)"
  using assms by (auto simp: getOfflineResponse_fst)







section \<open>Activation\<close>

lemma map_of_caches_delete:
  "map_of (caches_delete n cs) k = (if k = n then None else map_of cs k)"
  by (simp add: caches_delete_def delete_conv')

lemma map_of_fold_delete:
  "map_of (fold caches_delete ns cs) k = (if k \<in> set ns then None else map_of cs k)"
proof (induction ns arbitrary: cs)
  case Nil
  then show ?case by simp
next
  case (Cons n ns)
  have "map_of (fold caches_delete ns (caches_delete n cs)) k
          = (if k \<in> set ns then None else map_of (caches_delete n cs) k)"
    by (rule Cons.IH)
  then show ?case by (simp add: map_of_caches_delete)
qed

lemma map_of_fold_delete_if:
  "map_of (fold (\<lambda>n acc. if P n then caches_delete n acc else acc) ns cs) k
     = (if k \<in> set ns \<and> P k then None else map_of cs k)"
proof (induction ns arbitrary: cs)
  case Nil
  then show ?case by simp
next
  case (Cons n ns)
  let ?cs = "if P n then caches_delete n cs else cs"
  have "map_of (fold (\<lambda>n acc. if P n then caches_delete n acc else acc) ns ?cs) k
          = (if k \<in> set ns \<and> P k then None else map_of ?cs k)"
    by (rule Cons.IH)
  then show ?case by (simp add: map_of_caches_delete)
qed

lemma key_iff: "k \<in> set (caches_keys cs) \<longleftrightarrow> map_of cs k \<noteq> None"
  by (simp add: caches_keys_def map_of_eq_None_iff)

lemma map_of_cleanupOldCaches:
  "map_of (cleanupOldCaches cs) k = (if k \<in> set currentCaches then map_of cs k else None)"
  by (auto simp: cleanupOldCaches_def map_of_fold_delete key_iff)

lemma map_of_activate_listener:
  "map_of (activate_listener cs) k =
     (if startsWith k ''ravan-fashion-'' \<and> \<not> endsWith k ''-v1'' then None else map_of cs k)"
  unfolding activate_listener_def
  by (simp add: map_of_fold_delete_if key_iff)

text \<open>
  C6, as the code has it. The optimized worker's activation keeps a cache exactly when
  its name is one of the five current cache names, and deletes every other existing
  cache. The first worker's activation deletes exactly the existing caches whose name
  starts with \<^verbatim>\<open>ravan-fashion-\<close> and does not end with \<^verbatim>\<open>-v1\<close>. A cache that is
  kept keeps its contents.
\<close>

theorem activation_deletes_exactly:
  "map_of (cleanupOldCaches cs) n = (if n \<in> set currentCaches then map_of cs n else None) \<and>
   (n \<in> set (caches_keys cs) \<longrightarrow>
      (n \<notin> set (caches_keys (cleanupOldCaches cs)) \<longleftrightarrow> n \<notin> set currentCaches)) \<and>
   map_of (activate_listener cs) n =
     (if startsWith n ''ravan-fashion-'' \<and> \<not> endsWith n ''-v1'' then None else map_of cs n) \<and>
   (n \<in> set (caches_keys cs) \<longrightarrow>
      (n \<notin> set (caches_keys (activate_listener cs))
         \<longleftrightarrow> startsWith n ''ravan-fashion-'' \<and> \<not> endsWith n ''-v1''))"
  by (auto simp: key_iff map_of_cleanupOldCaches map_of_activate_listener)

text \<open>
  C6, as stated, fails in both workers. The first worker leaves \<^verbatim>\<open>legacy-cache-v0\<close>
  alone, a name that does not carry the current version tag. The optimized worker deletes
  \<^verbatim>\<open>ravan-fashion-fonts-v1\<close>, the first worker's font cache, whose name carries the
  current version tag but is not among its five.
\<close>

theorem activation_ignores_version_tag:
  "''legacy-cache-v0'' \<in> set (caches_keys [(''legacy-cache-v0'', [])]) \<and>
   \<not> endsWith ''legacy-cache-v0'' ''-v1'' \<and>
   ''legacy-cache-v0'' \<in> set (caches_keys (activate_listener [(''legacy-cache-v0'', [])])) \<and>
   FONT_CACHE \<in> set (caches_keys [(FONT_CACHE, [])]) \<and>
   endsWith FONT_CACHE ''-v1'' \<and>
   FONT_CACHE \<notin> set (caches_keys (cleanupOldCaches [(FONT_CACHE, [])]))"
  by (simp add: caches_keys_def activate_listener_def cleanupOldCaches_def endsWith_def
      startsWith_def suffix_to_prefix FONT_CACHE_def currentCaches_def caches_delete_def)

theorem activation_deletes_exactly_witness:
  "''ravan-fashion-static-v0'' \<in> set (caches_keys [(''ravan-fashion-static-v0'', []), (RAVAN_FASHION_CACHE STATIC, [])]) \<and>
   ''ravan-fashion-static-v0'' \<notin> set currentCaches \<and>
   ''ravan-fashion-static-v0'' \<notin> set (caches_keys
       (cleanupOldCaches [(''ravan-fashion-static-v0'', []), (RAVAN_FASHION_CACHE STATIC, [])])) \<and>
   startsWith ''ravan-fashion-static-v0'' ''ravan-fashion-'' \<and>
   \<not> endsWith ''ravan-fashion-static-v0'' ''-v1'' \<and>
   ''ravan-fashion-static-v0'' \<notin> set (caches_keys
       (activate_listener [(''ravan-fashion-static-v0'', []), (RAVAN_FASHION_CACHE STATIC, [])])) \<and>
   map_of (cleanupOldCaches [(''ravan-fashion-static-v0'', []), (RAVAN_FASHION_CACHE STATIC, [])])
     (RAVAN_FASHION_CACHE STATIC) = Some []"
proof -
  let ?cs = "[(''ravan-fashion-static-v0'', []), (RAVAN_FASHION_CACHE STATIC, [])] :: cache_storage"
  have k: "''ravan-fashion-static-v0'' \<in> set (caches_keys ?cs)"
    by (simp add: caches_keys_def)
  have old: "''ravan-fashion-static-v0'' \<notin> set currentCaches"
    by (simp add: currentCaches_def)
  have pre: "startsWith ''ravan-fashion-static-v0'' ''ravan-fashion-''"
    by (simp add: startsWith_def)
  have suf: "\<not> endsWith ''ravan-fashion-static-v0'' ''-v1''"
    by (simp add: endsWith_def suffix_to_prefix)
  have cur: "RAVAN_FASHION_CACHE STATIC \<in> set currentCaches"
    by (simp add: currentCaches_def)
  have kept: "map_of ?cs (RAVAN_FASHION_CACHE STATIC) = Some []"
    by simp
  show ?thesis
    using k old pre suf cur kept
      activation_deletes_exactly [of ?cs "''ravan-fashion-static-v0''"]
      activation_deletes_exactly [of ?cs "RAVAN_FASHION_CACHE STATIC"]
    by simp
qed

section \<open>Precaching at install\<close>

lemma fold_start_fetch [simp]:
  "caches (fold start_fetch urls st) = caches st"
  "fetch_log (fold start_fetch urls st) = fetch_log st @ urls"
  by (induction urls arbitrary: st) (simp_all add: start_fetch_def)

lemma cache_match_put_fetched:
  "cache_match n' k (caches (put_fetched e n u st)) =
     (if n' = n \<and> k = u \<and> (\<exists>r. net e u = Resolves r)
      then (case net e k of Resolves r \<Rightarrow> Some r | Rejects err \<Rightarrow> None)
      else cache_match n' k (caches st))"
  by (auto simp: put_fetched_def split: result.splits)

lemma cache_match_fold_put_fetched:
  "cache_match n' k (caches (fold (put_fetched e n) urls st)) =
     (if n' = n \<and> k \<in> set urls \<and> (\<exists>r. net e k = Resolves r)
      then (case net e k of Resolves r \<Rightarrow> Some r | Rejects err \<Rightarrow> None)
      else cache_match n' k (caches st))"
  by (induction urls arbitrary: st) (auto simp: cache_match_put_fetched)

lemma cache_add_eq:
  "cache_add e n u st =
     (if fetched_ok e u then (Resolves (), put_fetched e n u (start_fetch u st))
      else (Rejects TypeError, start_fetch u st))"
  by (simp add: cache_add_def cache_addAll_def)

lemma cache_match_add_tolerant:
  "cache_match n k (caches (add_tolerant e u st)) =
     (if n = RAVAN_FASHION_CACHE STATIC \<and> k = u \<and> fetched_ok e k
      then (case net e k of Resolves r \<Rightarrow> Some r | Rejects err \<Rightarrow> None)
      else cache_match n k (caches st))"
  by (auto simp: add_tolerant_def cache_add_eq cache_match_put_fetched fetched_ok_def
      split: result.splits)

lemma fetch_log_add_tolerant: "fetch_log (add_tolerant e u st) = fetch_log st @ [u]"
  by (auto simp: add_tolerant_def cache_add_eq put_fetched_def put_cache_def start_fetch_def
      console_warn_def split: result.splits)

lemma cache_match_fold_add_tolerant:
  "cache_match n k (caches (fold (add_tolerant e) urls st)) =
     (if n = RAVAN_FASHION_CACHE STATIC \<and> k \<in> set urls \<and> fetched_ok e k
      then (case net e k of Resolves r \<Rightarrow> Some r | Rejects err \<Rightarrow> None)
      else cache_match n k (caches st))"
  by (induction urls arbitrary: st) (auto simp: cache_match_add_tolerant)

lemma fetch_log_fold_add_tolerant:
  "fetch_log (fold (add_tolerant e) urls st) = fetch_log st @ urls"
  by (induction urls arbitrary: st) (simp_all add: fetch_log_add_tolerant)

lemma precacheCriticalResources_resolves:
  "fst (precacheCriticalResources e urls st) = Resolves ()"
  by (simp add: precacheCriticalResources_def split: prod.splits result.splits)

lemma precacheCriticalResources_match:
  "cache_match n k (caches (snd (precacheCriticalResources e urls st))) =
     (if n = RAVAN_FASHION_CACHE STATIC \<and> k \<in> set urls \<and> fetched_ok e k
      then (case net e k of Resolves r \<Rightarrow> Some r | Rejects err \<Rightarrow> None)
      else cache_match n k (caches st))"
proof (cases "list_all (fetched_ok e) urls \<and> distinct urls")
  case True
  then have "k \<in> set urls \<Longrightarrow> fetched_ok e k"
    by (simp add: list_all_iff)
  moreover have "fetched_ok e k \<Longrightarrow> \<exists>r. net e k = Resolves r"
    by (simp add: fetched_ok_def split: result.splits)
  ultimately show ?thesis
    using True
    by (auto simp: precacheCriticalResources_def cache_addAll_def Let_def
        cache_match_fold_put_fetched)
next
  case False
  then show ?thesis
    by (auto simp: precacheCriticalResources_def cache_addAll_def Let_def
        cache_match_fold_add_tolerant)
qed

lemma precacheCriticalResources_retries:
  "\<not> list_all (fetched_ok e) urls \<Longrightarrow>
   fetch_log (snd (precacheCriticalResources e urls st)) = fetch_log st @ urls @ urls"
  by (simp add: precacheCriticalResources_def cache_addAll_def Let_def fetch_log_fold_add_tolerant
      console_warn_def open_cache_def)

lemma install_listener_rejects:
  "\<not> list_all (fetched_ok e) CRITICAL_ASSETS \<Longrightarrow> fst (install_listener e st) = Rejects TypeError"
  by (simp add: install_listener_def cache_addAll_def Let_def split: prod.splits)

text \<open>
  C7, as the code has it. In the optimized worker the precaching always resolves, and
  so does the install. Every manifest URL that the network answers with an ok response
  ends up in the static cache with that response; a URL that fails leaves the caches as
  they were for it. When some URL fails, each manifest URL is fetched a second time, on
  its own. In the first worker one failing critical asset makes the install reject.
\<close>

theorem precache_tolerates_failures:
  "fst (precacheCriticalResources e urls st) = Resolves () \<and>
   fst (install e st) = Resolves () \<and>
   (u \<in> set urls \<and> net e u = Resolves r \<and> ok r \<longrightarrow>
      cache_match (RAVAN_FASHION_CACHE STATIC) u
        (caches (snd (precacheCriticalResources e urls st))) = Some r) \<and>
   (\<not> fetched_ok e u \<longrightarrow>
      cache_match n u (caches (snd (precacheCriticalResources e urls st)))
        = cache_match n u (caches st)) \<and>
   (\<not> list_all (fetched_ok e) urls \<longrightarrow>
      fetch_log (snd (precacheCriticalResources e urls st)) = fetch_log st @ urls @ urls) \<and>
   (\<not> list_all (fetched_ok e) CRITICAL_ASSETS \<longrightarrow>
      fst (install_listener e st) = Rejects TypeError)"
proof -
  have i: "fst (install e st) = Resolves ()"
    using precacheCriticalResources_resolves
      [of e getPrecacheUrls "console_log ''Service Worker installing...'' st"]
    by (auto simp: install_def split: prod.splits)
  have s: "cache_match (RAVAN_FASHION_CACHE STATIC) u
        (caches (snd (precacheCriticalResources e urls st))) = Some r"
    if "u \<in> set urls \<and> net e u = Resolves r \<and> ok r"
    using that by (simp add: precacheCriticalResources_match fetched_ok_def)
  have t: "cache_match n u (caches (snd (precacheCriticalResources e urls st)))
        = cache_match n u (caches st)"
    if "\<not> fetched_ok e u"
    using that by (simp add: precacheCriticalResources_match)
  from i s t show ?thesis
    using precacheCriticalResources_resolves precacheCriticalResources_retries
      install_listener_rejects
    by blast
qed

text \<open>
  C7, as stated, fails in the first worker: with a network that answers 404 for one
  critical asset and 200 for every other manifest URL, its install rejects.
\<close>

theorem install_listener_fails_on_one_404:
  "list_all (\<lambda>u. u = ''/assets/section-design-story.css''
                  \<or> fetched_ok (missing_env ''/assets/section-design-story.css'') u)
     (CRITICAL_ASSETS @ CULTURAL_IMAGES) \<and>
   fst (install_listener (missing_env ''/assets/section-design-story.css'') (init_state []))
     = Rejects TypeError"
  by (simp add: install_listener_def cache_addAll_def Let_def CRITICAL_ASSETS_def
      CULTURAL_IMAGES_def fetched_ok_def missing_env_def ok_def ex_response_def
      split: prod.splits)


theorem precache_tolerates_failures_witness:
  "\<not> fetched_ok (missing_env ''/assets/section-design-story.css'') ''/assets/section-design-story.css'' \<and>
   net (missing_env ''/assets/section-design-story.css'') ''/offline.html''
     = Resolves (ex_response 200 ''/offline.html'' (Some (Ms 0)) ''fresh'') \<and>
   ok (ex_response 200 ''/offline.html'' (Some (Ms 0)) ''fresh'') \<and>
   fst (precacheCriticalResources (missing_env ''/assets/section-design-story.css'')
          [''/assets/section-design-story.css'', ''/offline.html''] (init_state []))
     = Resolves () \<and>
   cache_match (RAVAN_FASHION_CACHE STATIC) ''/offline.html''
     (caches (snd (precacheCriticalResources (missing_env ''/assets/section-design-story.css'')
          [''/assets/section-design-story.css'', ''/offline.html''] (init_state []))))
     = Some (ex_response 200 ''/offline.html'' (Some (Ms 0)) ''fresh'') \<and>
   cache_match (RAVAN_FASHION_CACHE STATIC) ''/assets/section-design-story.css''
     (caches (snd (precacheCriticalResources (missing_env ''/assets/section-design-story.css'')
          [''/assets/section-design-story.css'', ''/offline.html''] (init_state []))))
     = None \<and>
   fetch_log (snd (precacheCriticalResources (missing_env ''/assets/section-design-story.css'')
          [''/assets/section-design-story.css'', ''/offline.html''] (init_state [])))
     = [''/assets/section-design-story.css'', ''/offline.html'',
        ''/assets/section-design-story.css'', ''/offline.html''] \<and>
   fst (install_listener (missing_env ''/assets/section-design-story.css'') (init_state []))
     = Rejects TypeError"
proof -
  let ?bad = "''/assets/section-design-story.css''"
  let ?e = "missing_env ?bad"
  let ?urls = "[?bad, ''/offline.html'']"
  let ?r = "ex_response 200 ''/offline.html'' (Some (Ms 0)) ''fresh''"
  have bad: "\<not> fetched_ok ?e ?bad"
    by (simp add: fetched_ok_def missing_env_def ok_def ex_response_def)
  have good: "net ?e ''/offline.html'' = Resolves ?r \<and> ok ?r"
    by (simp add: missing_env_def ok_def ex_response_def)
  have some: "\<not> list_all (fetched_ok ?e) ?urls"
    using bad by simp
  have crit: "\<not> list_all (fetched_ok ?e) CRITICAL_ASSETS"
    using bad by (simp add: CRITICAL_ASSETS_def)
  have empty: "cache_match (RAVAN_FASHION_CACHE STATIC) ?bad (caches (init_state [])) = None"
    by (simp add: cache_match_def init_state_def)
  have log: "fetch_log (init_state []) = []"
    by (simp add: init_state_def)
  show ?thesis
    using bad good some crit empty log
      precache_tolerates_failures [where e = ?e and urls = ?urls and st = "init_state []"
        and u = "''/offline.html''" and r = ?r]
      precache_tolerates_failures [where e = ?e and urls = ?urls and st = "init_state []"
        and u = ?bad and n = "RAVAN_FASHION_CACHE STATIC"]
    by simp
qed

section \<open>Control messages\<close>







end
